theory Spec2Isabelle
  imports Main
begin

section \<open>Values of the host language\<close>

text \<open>
  The loader is written against \<^verbatim>\<open>ObjectLiteral\<close> and \<^verbatim>\<open>any\<close>: entities, database rows,
  relation values and identifiers are all plain values of the host language. An object is
  known by its reference (\<open>Obj\<close> with an address), so \<^verbatim>\<open>===\<close> on objects is equality of
  addresses and \<^verbatim>\<open>===\<close> on primitives is equality of values. Numbers are integers here
  (no NaN).
\<close>

datatype jsval = Undefined | Null | JBool bool | JNum int | JStr string | Obj nat

text \<open>The test \<^verbatim>\<open>if (v)\<close> / \<^verbatim>\<open>!v\<close> / \<^verbatim>\<open>!!v\<close> of the host language.\<close>

fun truthy :: "jsval \<Rightarrow> bool" where
  "truthy Undefined = False"
| "truthy Null = False"
| "truthy (JBool b) = b"
| "truthy (JNum n) = (n \<noteq> 0)"
| "truthy (JStr s) = (s \<noteq> [])"
| "truthy (Obj a) = True"

section \<open>Consumed capabilities: relation descriptor, entity metadata, connection\<close>

text \<open>
  \<^verbatim>\<open>RelationMetadata\<close>, \<^verbatim>\<open>EntityMetadata\<close> and \<^verbatim>\<open>Connection\<close> are collaborators of the loader.
  Their flags are fields; their methods are function-valued fields, so every result below
  holds for whatever these methods compute. An \<^verbatim>\<open>EntityMetadata\<close> object is named by its
  \<open>target\<close> and resolved through \<^verbatim>\<open>connection.getMetadata\<close>, which is how
  \<^verbatim>\<open>relation.inverseEntityMetadata\<close> and \<^verbatim>\<open>subject.metadata\<close> are stored here.
\<close>

type_synonym target = string

record relation =
  isCascadeInsert :: bool
  isCascadeUpdate :: bool
  isCascadeRemove :: bool
  isOneToOneOwner :: bool
  isManyToOne :: bool
  isOneToOneNotOwner :: bool
  inverseEntityMetadata :: target
  referencedColumnPropertyName :: string
  inverseSideProperty :: string
  isEntityDefined :: "jsval \<Rightarrow> bool"
  getEntityValue :: "jsval \<Rightarrow> jsval"
  getOwnEntityRelationId :: "jsval \<Rightarrow> jsval"
  getInverseEntityRelationId :: "jsval \<Rightarrow> jsval"

record entityMetadata =
  target :: target
  tableName :: string
  relations :: "relation list"
  extractRelationValuesFromEntity :: "jsval \<Rightarrow> relation list \<Rightarrow> (relation \<times> jsval \<times> target) list"
  getEntityIdMixedMap :: "jsval \<Rightarrow> jsval"

text \<open>
  The repository: \<open>findByIds conn target ids alias\<close> is the batched read of Phase 2,
  \<open>getSingleResult conn target alias condition id\<close> the single-row query of Phase 3 (the
  query builder chain ending in \<^verbatim>\<open>getSingleResult()\<close>). A rejected promise is \<open>Inl\<close> with
  the failure's message.
\<close>

record connection =
  getMetadata :: "target \<Rightarrow> entityMetadata"
  findByIds :: "target \<Rightarrow> jsval list \<Rightarrow> string \<Rightarrow> string + jsval list"
  getSingleResult :: "target \<Rightarrow> string \<Rightarrow> string \<Rightarrow> jsval \<Rightarrow> string + jsval"

datatype error = FetchError string

section \<open>Subject and Subject Collection\<close>

text \<open>
  A Subject is a mutable object that the collection, and local variables of the loader,
  hold by reference. The loader state is therefore a store of Subject objects
  (\<open>subjects\<close>, the address is the index) and the collection \<open>loadMap\<close> as the list of
  addresses in insertion order. The field \<^verbatim>\<open>persistedEntity\<close> of the loader is written
  once and never read, and is left out.
\<close>

record subject =
  metadata :: target
  entity :: jsval
  databaseEntity :: jsval
  markedAsRemoved :: bool

record loader =
  subjects :: "subject list"
  loadMap :: "nat list"

text \<open>\<^verbatim>\<open>new Subject(metadata, entity, databaseEntity)\<close>: the new object's address is
  \<open>length (subjects st)\<close>.\<close>

definition newSubject :: "target \<Rightarrow> jsval \<Rightarrow> jsval \<Rightarrow> loader \<Rightarrow> loader" where
  "newSubject md e d st =
     st\<lparr>subjects := subjects st @
        [\<lparr>metadata = md, entity = e, databaseEntity = d, markedAsRemoved = False\<rparr>]\<rparr>"

text \<open>Modelled from the spec: the Subject's \<open>entityType\<close> is the target of its metadata
  (\<^verbatim>\<open>subject.entityTarget\<close>; the class Subject is not among the sources).\<close>

definition entityTarget :: "subject \<Rightarrow> target" where
  "entityTarget subj = metadata subj"

text \<open>Modelled from the spec: \<open>mixedIdentifier\<close> is "the identifier used to fetch
  \<open>databaseValue\<close> (derived from \<open>persistedValue\<close>'s primary key, or from a relation
  lookup)"; the class Subject is not among the sources.\<close>

definition mixedId :: "connection \<Rightarrow> subject \<Rightarrow> jsval" where
  "mixedId conn subj =
     getEntityIdMixedMap (getMetadata conn (metadata subj))
       (if truthy (entity subj) then entity subj else databaseEntity subj)"

text \<open>Modelled from the spec: \<open>push(subject)\<close> "appends unconditionally"; the class
  SubjectCollection is not among the sources.\<close>

definition push :: "nat \<Rightarrow> loader \<Rightarrow> loader" where
  "push a st = st\<lparr>loadMap := loadMap st @ [a]\<rparr>"

text \<open>Modelled from the spec: \<open>pushIfNotExist(subject)\<close> "appends only if no existing
  Subject shares type+identifier"; the class SubjectCollection is not among the sources.
  The loader ignores what it returns.\<close>

definition sameIdentity :: "connection \<Rightarrow> subject \<Rightarrow> subject \<Rightarrow> bool" where
  "sameIdentity conn x y \<longleftrightarrow> entityTarget x = entityTarget y \<and> mixedId conn x = mixedId conn y"

definition pushIfNotExist :: "connection \<Rightarrow> nat \<Rightarrow> loader \<Rightarrow> loader" where
  "pushIfNotExist conn a st =
     (if list_ex (\<lambda>b. sameIdentity conn (subjects st ! b) (subjects st ! a)) (loadMap st)
      then st else push a st)"

text \<open>Modelled from the spec: \<open>findByEntityLike(type, sampleEntity)\<close> is a "linear lookup
  by identity comparison": the first Subject of that type whose persisted value has the
  sample's identifier. The class SubjectCollection is not among the sources.\<close>

definition findByEntityLike :: "connection \<Rightarrow> loader \<Rightarrow> target \<Rightarrow> jsval \<Rightarrow> nat option" where
  "findByEntityLike conn st tgt sample =
     List.find (\<lambda>a. truthy (entity (subjects st ! a)) \<and>
                    entityTarget (subjects st ! a) = tgt \<and>
                    getEntityIdMixedMap (getMetadata conn tgt) (entity (subjects st ! a)) =
                    getEntityIdMixedMap (getMetadata conn tgt) sample)
       (loadMap st)"

text \<open>Modelled from the spec: \<open>groupByEntityTargets()\<close> "partitions the collection into one
  group per entity type", here in the order in which the types first occur. The class
  SubjectCollection is not among the sources.\<close>

definition groupByEntityTargets :: "loader \<Rightarrow> (target \<times> nat list) list" where
  "groupByEntityTargets st =
     map (\<lambda>t. (t, filter (\<lambda>a. entityTarget (subjects st ! a) = t) (loadMap st)))
       (rev (remdups (rev (map (\<lambda>a. entityTarget (subjects st ! a)) (loadMap st)))))"

section \<open>Sequencing\<close>

text \<open>
  A walk that may not return has the result \<open>None\<close>; the recursive walks below take the
  depth of recursion they may use (fuel) and give \<open>None\<close> when it is used up. A rejected
  promise is \<open>Some (Inl err)\<close>. The source starts the checks of one \<^verbatim>\<open>map\<close> together and
  awaits them with \<^verbatim>\<open>Promise.all\<close>; here they run one after the other, in the order of the
  array, and the first failure is the failure of the whole.
\<close>

fun forEachO :: "('a \<Rightarrow> 's \<Rightarrow> 's option) \<Rightarrow> 'a list \<Rightarrow> 's \<Rightarrow> 's option" where
  "forEachO f [] st = Some st"
| "forEachO f (x # xs) st = (case f x st of None \<Rightarrow> None | Some st' \<Rightarrow> forEachO f xs st')"

fun forEachE :: "('a \<Rightarrow> 's \<Rightarrow> error + 's) \<Rightarrow> 'a list \<Rightarrow> 's \<Rightarrow> error + 's" where
  "forEachE f [] st = Inr st"
| "forEachE f (x # xs) st = (case f x st of Inl err \<Rightarrow> Inl err | Inr st' \<Rightarrow> forEachE f xs st')"

fun forEachM :: "('a \<Rightarrow> 's \<Rightarrow> (error + 's) option) \<Rightarrow> 'a list \<Rightarrow> 's \<Rightarrow> (error + 's) option" where
  "forEachM f [] st = Some (Inr st)"
| "forEachM f (x # xs) st =
     (case f x st of
        None \<Rightarrow> None
      | Some (Inl err) \<Rightarrow> Some (Inl err)
      | Some (Inr st') \<Rightarrow> forEachM f xs st')"

section \<open>Phase 1: findCascadeUpdateAndInsertEntitiesToLoad\<close>

primrec findCascadeUpdateAndInsertEntitiesToLoad ::
  "nat \<Rightarrow> connection \<Rightarrow> jsval \<Rightarrow> target \<Rightarrow> loader \<Rightarrow> loader option" where
  "findCascadeUpdateAndInsertEntitiesToLoad 0 conn e md st = None"
| "findCascadeUpdateAndInsertEntitiesToLoad (Suc n) conn e md st =
     forEachO
       (\<lambda>(rel, val, valueMetadata) st'.
          if isEntityDefined rel val \<and> (isCascadeInsert rel \<or> isCascadeUpdate rel)
          then findCascadeUpdateAndInsertEntitiesToLoad n conn val valueMetadata
                 (pushIfNotExist conn (length (subjects st'))
                    (newSubject valueMetadata val Undefined st'))
          else Some st')
       (extractRelationValuesFromEntity (getMetadata conn md) e (relations (getMetadata conn md)))
       st"

section \<open>Phase 2: populateSubjectCollectionWithDatabaseEntities\<close>

definition setDatabaseEntity :: "nat \<Rightarrow> jsval \<Rightarrow> loader \<Rightarrow> loader" where
  "setDatabaseEntity a d st =
     st\<lparr>subjects := (subjects st)[a := (subjects st ! a)\<lparr>databaseEntity := d\<rparr>]\<rparr>"

text \<open>
  The callback of \<^verbatim>\<open>groupByEntityTargets().map\<close> for one group. The identifiers of every
  group are read while the promises are made, before any answer has come back: they are
  taken from \<open>collection\<close>, the loader state at that moment. The answer is then worked into
  the current state \<open>st\<close>.
\<close>

definition populateGroup ::
  "connection \<Rightarrow> loader \<Rightarrow> target \<times> nat list \<Rightarrow> loader \<Rightarrow> error + loader" where
  "populateGroup conn collection grp st =
     (let allIds = map (\<lambda>a. mixedId conn (subjects collection ! a)) (snd grp);
          md = getMetadata conn (fst grp)
      in case findByIds conn (fst grp) allIds (tableName md) of
           Inl msg \<Rightarrow> Inl (FetchError msg)
         | Inr entities \<Rightarrow>
             Inr (fold (\<lambda>ent st'. case findByEntityLike conn st' (target md) ent of
                                    None \<Rightarrow> st'
                                  | Some a \<Rightarrow> setDatabaseEntity a ent st')
                    entities st))"

definition populateSubjectCollectionWithDatabaseEntities ::
  "connection \<Rightarrow> loader \<Rightarrow> error + loader" where
  "populateSubjectCollectionWithDatabaseEntities conn st =
     forEachE (populateGroup conn st) (groupByEntityTargets st) st"

section \<open>Phase 3: findCascadeRemovedEntitiesToLoad\<close>

text \<open>Lines 156 to 160: the relation identifier of the persisted value; \<open>Null\<close> when the
  Subject has no persisted value.\<close>

definition persistValueRelationId :: "relation \<Rightarrow> subject \<Rightarrow> jsval" where
  "persistValueRelationId rel subj =
     (if truthy (entity subj)
      then (let v = getEntityValue rel (entity subj)
            in if truthy v then getInverseEntityRelationId rel v else v)
      else Null)"

text \<open>The predicate of \<^verbatim>\<open>this.loadMap.find\<close> in both branches.\<close>

definition findRelatedDatabaseSubject :: "relation \<Rightarrow> jsval \<Rightarrow> loader \<Rightarrow> nat option" where
  "findRelatedDatabaseSubject rel relationIdInDatabaseEntity st =
     List.find (\<lambda>a. truthy (databaseEntity (subjects st ! a)) \<and>
                    entityTarget (subjects st ! a) = inverseEntityMetadata rel \<and>
                    getInverseEntityRelationId rel (databaseEntity (subjects st ! a)) =
                    relationIdInDatabaseEntity)
       (loadMap st)"

definition markAsRemoved :: "nat \<Rightarrow> loader \<Rightarrow> loader" where
  "markAsRemoved a st =
     st\<lparr>subjects := (subjects st)[a := (subjects st ! a)\<lparr>markedAsRemoved := True\<rparr>]\<rparr>"

text \<open>
  The two blocks of the relation check. The owner-side block (lines 167 to 238) returns
  the state and whether the check has executed \<^verbatim>\<open>return\<close> (\<open>True\<close>) or runs on to the
  statement after the block (\<open>False\<close>); the block for the non-owning side (lines 243 to
  314) is the last statement of the check. \<open>recur\<close> is the recursive call of the walk.
\<close>

definition withFlag :: "bool \<Rightarrow> (error + loader) option \<Rightarrow> (error + bool \<times> loader) option" where
  "withFlag b r = map_option (map_sum id (Pair b)) r"

definition ownerSideCheck ::
  "(nat \<Rightarrow> loader \<Rightarrow> (error + loader) option) \<Rightarrow> connection \<Rightarrow> nat \<Rightarrow> relation \<Rightarrow> jsval \<Rightarrow>
   loader \<Rightarrow> (error + bool \<times> loader) option" where
  "ownerSideCheck recur conn s rel persistId st =
     (let valueMetadata = inverseEntityMetadata rel;
          qbAlias = tableName (getMetadata conn valueMetadata);
          relationIdInDatabaseEntity =
            getOwnEntityRelationId rel (databaseEntity (subjects st ! s))
      in if relationIdInDatabaseEntity \<noteq> Null \<and> relationIdInDatabaseEntity \<noteq> Undefined
         then Some (Inr (True, st))
         else if persistId = Null \<or> persistId = relationIdInDatabaseEntity
         then Some (Inr (True, st))
         else (case findRelatedDatabaseSubject rel relationIdInDatabaseEntity st of
                 Some a \<Rightarrow> withFlag False (recur a (markAsRemoved a st))
               | None \<Rightarrow>
                   (case getSingleResult conn valueMetadata qbAlias
                           (qbAlias @ ''.'' @ referencedColumnPropertyName rel @ ''=:id'')
                           (getOwnEntityRelationId rel (databaseEntity (subjects st ! s))) of
                      Inl msg \<Rightarrow> Some (Inl (FetchError msg))
                    | Inr d \<Rightarrow>
                        if truthy d
                        then withFlag False
                               (recur (length (subjects st))
                                  (markAsRemoved (length (subjects st))
                                     (push s (newSubject valueMetadata Undefined d st))))
                        else Some (Inr (False, st)))))"

definition notOwnerSideCheck ::
  "(nat \<Rightarrow> loader \<Rightarrow> (error + loader) option) \<Rightarrow> connection \<Rightarrow> nat \<Rightarrow> relation \<Rightarrow> jsval \<Rightarrow>
   loader \<Rightarrow> (error + loader) option" where
  "notOwnerSideCheck recur conn s rel persistId st =
     (let valueMetadata = inverseEntityMetadata rel;
          qbAlias = tableName (getMetadata conn valueMetadata);
          relationIdInDatabaseEntity =
            getOwnEntityRelationId rel (databaseEntity (subjects st ! s))
      in if relationIdInDatabaseEntity \<noteq> Null \<and> relationIdInDatabaseEntity \<noteq> Undefined
         then Some (Inr st)
         else (case findRelatedDatabaseSubject rel relationIdInDatabaseEntity st of
                 Some a \<Rightarrow>
                   if truthy persistId \<and>
                      persistId = getInverseEntityRelationId rel (databaseEntity (subjects st ! a))
                   then Some (Inr st)
                   else recur a (markAsRemoved a st)
               | None \<Rightarrow>
                   (case getSingleResult conn valueMetadata qbAlias
                           (qbAlias @ ''.'' @ inverseSideProperty rel @ ''=:id'')
                           (getOwnEntityRelationId rel (entity (subjects st ! s))) of
                      Inl msg \<Rightarrow> Some (Inl (FetchError msg))
                    | Inr d \<Rightarrow>
                        if truthy d
                        then (if truthy persistId \<and> persistId = getInverseEntityRelationId rel d
                              then Some (Inr (push s (newSubject valueMetadata Undefined d st)))
                              else recur (length (subjects st))
                                     (markAsRemoved (length (subjects st))
                                        (push s (newSubject valueMetadata Undefined d st))))
                        else Some (Inr st))))"

text \<open>The body of \<^verbatim>\<open>subject.metadata.relations.map(async relation => ...)\<close>.\<close>

definition relationChecks ::
  "(nat \<Rightarrow> loader \<Rightarrow> (error + loader) option) \<Rightarrow> connection \<Rightarrow> nat \<Rightarrow> relation \<Rightarrow> jsval \<Rightarrow>
   loader \<Rightarrow> (error + loader) option" where
  "relationChecks recur conn s rel persistId st =
     (case (if isOneToOneOwner rel \<or> isManyToOne rel
            then ownerSideCheck recur conn s rel persistId st
            else Some (Inr (False, st))) of
        None \<Rightarrow> None
      | Some (Inl err) \<Rightarrow> Some (Inl err)
      | Some (Inr (returned, st')) \<Rightarrow>
          if returned then Some (Inr st')
          else if isOneToOneNotOwner rel then notOwnerSideCheck recur conn s rel persistId st'
          else Some (Inr st'))"

definition cascadeRemovedRelation ::
  "(nat \<Rightarrow> loader \<Rightarrow> (error + loader) option) \<Rightarrow> connection \<Rightarrow> nat \<Rightarrow> relation \<Rightarrow>
   loader \<Rightarrow> (error + loader) option" where
  "cascadeRemovedRelation recur conn s rel st =
     (if \<not> isCascadeRemove rel then Some (Inr st)
      else if \<not> truthy (databaseEntity (subjects st ! s)) then Some (Inr st)
      else if truthy (entity (subjects st ! s)) \<and>
              persistValueRelationId rel (subjects st ! s) = Undefined
      then Some (Inr st)
      else relationChecks recur conn s rel (persistValueRelationId rel (subjects st ! s)) st)"

primrec findCascadeRemovedEntitiesToLoad ::
  "nat \<Rightarrow> connection \<Rightarrow> nat \<Rightarrow> loader \<Rightarrow> (error + loader) option" where
  "findCascadeRemovedEntitiesToLoad 0 conn s st = None"
| "findCascadeRemovedEntitiesToLoad (Suc n) conn s st =
     forEachM (cascadeRemovedRelation (findCascadeRemovedEntitiesToLoad n conn) conn s)
       (relations (getMetadata conn (metadata (subjects st ! s)))) st"

section \<open>load\<close>

definition load :: "nat \<Rightarrow> connection \<Rightarrow> loader \<Rightarrow> jsval \<Rightarrow> target \<Rightarrow> (error + loader) option" where
  "load fuel conn this e md =
     (case findCascadeUpdateAndInsertEntitiesToLoad fuel conn e md
             (push (length (subjects this)) (newSubject md e Undefined this)) of
        None \<Rightarrow> None
      | Some st \<Rightarrow>
          (case populateSubjectCollectionWithDatabaseEntities conn st of
             Inl err \<Rightarrow> Some (Inl err)
           | Inr st' \<Rightarrow>
               forEachM (findCascadeRemovedEntitiesToLoad fuel conn)
                 (filter (\<lambda>s. truthy (databaseEntity (subjects st' ! s))) (loadMap st'))
                 st'))"

section \<open>What Phase 1 follows and collects\<close>









section \<open>Stand-in collaborators for concrete runs\<close>

text \<open>
  Concrete runs need concrete collaborators. Objects live in a table from addresses to
  property lists; \<open>property heap name v\<close> reads a property (\<open>Undefined\<close> when it is not
  there, or when \<open>v\<close> is not an object). \<open>relationValues\<close> gives one triple per relation,
  and a value counts as an entity when it is an object.
\<close>

definition property :: "(nat \<Rightarrow> (string \<times> jsval) list) \<Rightarrow> string \<Rightarrow> jsval \<Rightarrow> jsval" where
  "property heap name v =
     (case v of
        Obj a \<Rightarrow> (case map_of (heap a) name of Some x \<Rightarrow> x | None \<Rightarrow> Undefined)
      | _ \<Rightarrow> Undefined)"

definition isObject :: "jsval \<Rightarrow> bool" where
  "isObject v = (case v of Obj a \<Rightarrow> True | _ \<Rightarrow> False)"

definition relationValues :: "jsval \<Rightarrow> relation list \<Rightarrow> (relation \<times> jsval \<times> target) list" where
  "relationValues e rels = map (\<lambda>r. (r, getEntityValue r e, inverseEntityMetadata r)) rels"

definition emptyLoader :: loader where
  "emptyLoader = \<lparr>subjects = [], loadMap = []\<rparr>"

subsection \<open>Scenario A: a post whose category was cleared\<close>

text \<open>
  The persisted \<^verbatim>\<open>Post{id: 1, category: null}\<close> is object 1. Storage holds the post's row
  (object 10, with \<^verbatim>\<open>category = 5\<close> as relation identifier) and the row of
  \<^verbatim>\<open>Category{id: 5}\<close> (object 50). \<^verbatim>\<open>Post.category\<close> is many-to-one with all cascades, as
  in \<^verbatim>\<open>sample3-many-to-one/entity/Post.ts\<close>.
\<close>

definition heapA :: "nat \<Rightarrow> (string \<times> jsval) list" where
  "heapA a =
     (if a = 1 then [(''id'', JNum 1), (''category'', Null)]
      else if a = 10 then [(''id'', JNum 1), (''category'', JNum 5)]
      else if a = 50 then [(''id'', JNum 5)]
      else [])"

definition categoryA :: relation where
  "categoryA =
     \<lparr>isCascadeInsert = True, isCascadeUpdate = True, isCascadeRemove = True,
      isOneToOneOwner = False, isManyToOne = True, isOneToOneNotOwner = False,
      inverseEntityMetadata = ''Category'', referencedColumnPropertyName = ''id'',
      inverseSideProperty = [], isEntityDefined = isObject,
      getEntityValue = property heapA ''category'',
      getOwnEntityRelationId = property heapA ''category'',
      getInverseEntityRelationId = property heapA ''id''\<rparr>"

definition connA :: connection where
  "connA =
     \<lparr>getMetadata = (\<lambda>t.
         if t = ''Post''
         then \<lparr>target = ''Post'', tableName = ''post'', relations = [categoryA],
               extractRelationValuesFromEntity = relationValues,
               getEntityIdMixedMap = property heapA ''id''\<rparr>
         else \<lparr>target = ''Category'', tableName = ''category'', relations = [],
               extractRelationValuesFromEntity = relationValues,
               getEntityIdMixedMap = property heapA ''id''\<rparr>),
      findByIds = (\<lambda>t ids alias.
         if t = ''Post'' \<and> JNum 1 \<in> set ids then Inr [Obj 10] else Inr []),
      getSingleResult = (\<lambda>t alias cond i.
         if t = ''Category'' \<and> i = JNum 5 then Inr (Obj 50) else Inr Undefined)\<rparr>"

text \<open>The loader state of Scenario A after Phase 2.\<close>

definition loadedA :: loader where
  "loadedA =
     \<lparr>subjects = [\<lparr>metadata = ''Post'', entity = Obj 1, databaseEntity = Obj 10,
                    markedAsRemoved = False\<rparr>],
      loadMap = [0]\<rparr>"

subsection \<open>Scenario U: the same post with its category left untouched\<close>

text \<open>
  As Scenario A, but the persisted \<^verbatim>\<open>Post{id: 1}\<close> has no \<^verbatim>\<open>category\<close> property at all:
  the relation value is undefined instead of null. Storage is the same.
\<close>

definition heapU :: "nat \<Rightarrow> (string \<times> jsval) list" where
  "heapU a = (if a = 1 then [(''id'', JNum 1)] else heapA a)"

definition categoryU :: relation where
  "categoryU =
     \<lparr>isCascadeInsert = True, isCascadeUpdate = True, isCascadeRemove = True,
      isOneToOneOwner = False, isManyToOne = True, isOneToOneNotOwner = False,
      inverseEntityMetadata = ''Category'', referencedColumnPropertyName = ''id'',
      inverseSideProperty = [], isEntityDefined = isObject,
      getEntityValue = property heapU ''category'',
      getOwnEntityRelationId = property heapU ''category'',
      getInverseEntityRelationId = property heapU ''id''\<rparr>"

definition connU :: connection where
  "connU =
     \<lparr>getMetadata = (\<lambda>t.
         if t = ''Post''
         then \<lparr>target = ''Post'', tableName = ''post'', relations = [categoryU],
               extractRelationValuesFromEntity = relationValues,
               getEntityIdMixedMap = property heapU ''id''\<rparr>
         else \<lparr>target = ''Category'', tableName = ''category'', relations = [],
               extractRelationValuesFromEntity = relationValues,
               getEntityIdMixedMap = property heapU ''id''\<rparr>),
      findByIds = (\<lambda>t ids alias.
         if t = ''Post'' \<and> JNum 1 \<in> set ids then Inr [Obj 10] else Inr []),
      getSingleResult = (\<lambda>t alias cond i.
         if t = ''Category'' \<and> i = JNum 5 then Inr (Obj 50) else Inr Undefined)\<rparr>"

subsection \<open>Scenario B: a post with a category, the category's parent and an author\<close>








subsection \<open>Scenario C: two users who are each other's partner\<close>

text \<open>
  \<^verbatim>\<open>User.partner\<close> is a one-to-one relation with insert-cascade. User 11 has user 12 as
  partner and user 12 has user 11: the persisted graph has a cycle.
\<close>

definition heapC :: "nat \<Rightarrow> (string \<times> jsval) list" where
  "heapC a =
     (if a = 11 then [(''id'', JNum 11), (''partner'', Obj 12)]
      else if a = 12 then [(''id'', JNum 12), (''partner'', Obj 11)]
      else [])"

definition partnerC :: relation where
  "partnerC =
     \<lparr>isCascadeInsert = True, isCascadeUpdate = False, isCascadeRemove = False,
      isOneToOneOwner = True, isManyToOne = False, isOneToOneNotOwner = False,
      inverseEntityMetadata = ''User'', referencedColumnPropertyName = ''id'',
      inverseSideProperty = ''partner'', isEntityDefined = isObject,
      getEntityValue = property heapC ''partner'',
      getOwnEntityRelationId = property heapC ''partner'',
      getInverseEntityRelationId = property heapC ''id''\<rparr>"

definition userMetadataC :: entityMetadata where
  "userMetadataC =
     \<lparr>target = ''User'', tableName = ''user'', relations = [partnerC],
      extractRelationValuesFromEntity = relationValues,
      getEntityIdMixedMap = property heapC ''id''\<rparr>"

definition connC :: connection where
  "connC =
     \<lparr>getMetadata = (\<lambda>t. userMetadataC),
      findByIds = (\<lambda>t ids alias. Inr []),
      getSingleResult = (\<lambda>t alias cond i. Inr Undefined)\<rparr>"

subsection \<open>Scenario D: details whose post was cleared, seen from the non-owning side\<close>

text \<open>
  \<^verbatim>\<open>Details.post\<close> is the non-owning side of a one-to-one relation with remove-cascade.
  The foreign key is \<^verbatim>\<open>Post.details\<close>, and the column it references
  (\<^verbatim>\<open>relation.joinColumn.referencedColumn\<close>, line 223) is \<^verbatim>\<open>Details.code\<close>, a nullable
  column. The descriptor reads properties of the object it is handed, the same property
  for a persisted value and for a row: the relation identifier of a Details is its
  \<^verbatim>\<open>code\<close>, that of a Post (seen from Details) its \<^verbatim>\<open>details\<close>.

  The stored row of \<^verbatim>\<open>Details{id: 3}\<close> (object 30) has no code yet. The persisted value
  (object 3) is \<^verbatim>\<open>Details{id: 3, code: 'X', post: pval}\<close>: this save gives it the code
  \<^verbatim>\<open>'X'\<close>. \<open>postRow\<close> is what storage answers for the post whose \<^verbatim>\<open>details\<close> is
  \<^verbatim>\<open>'X'\<close>; the row used below is object 40, \<^verbatim>\<open>Post{id: 4, details: 'X'}\<close>, with no slug.
  \<open>postRels\<close> are the relations of Post. \<^verbatim>\<open>Post.image\<close> is again a non-owning one-to-one
  relation with remove-cascade, whose referenced column is the nullable \<^verbatim>\<open>Post.slug\<close>; no
  image is stored.
\<close>

definition heapD :: "jsval \<Rightarrow> nat \<Rightarrow> (string \<times> jsval) list" where
  "heapD pval a =
     (if a = 3 then [(''id'', JNum 3), (''code'', JStr ''X''), (''post'', pval)]
      else if a = 30 then [(''id'', JNum 3), (''code'', Null)]
      else if a = 40 then [(''id'', JNum 4), (''details'', JStr ''X''), (''slug'', Null)]
      else [])"

definition postD :: "jsval \<Rightarrow> relation" where
  "postD pval =
     \<lparr>isCascadeInsert = False, isCascadeUpdate = False, isCascadeRemove = True,
      isOneToOneOwner = False, isManyToOne = False, isOneToOneNotOwner = True,
      inverseEntityMetadata = ''Post'', referencedColumnPropertyName = [],
      inverseSideProperty = ''details'', isEntityDefined = isObject,
      getEntityValue = property (heapD pval) ''post'',
      getOwnEntityRelationId = property (heapD pval) ''code'',
      getInverseEntityRelationId = property (heapD pval) ''details''\<rparr>"

definition imageD :: "jsval \<Rightarrow> relation" where
  "imageD pval =
     \<lparr>isCascadeInsert = False, isCascadeUpdate = False, isCascadeRemove = True,
      isOneToOneOwner = False, isManyToOne = False, isOneToOneNotOwner = True,
      inverseEntityMetadata = ''Image'', referencedColumnPropertyName = [],
      inverseSideProperty = ''post'', isEntityDefined = isObject,
      getEntityValue = property (heapD pval) ''image'',
      getOwnEntityRelationId = property (heapD pval) ''slug'',
      getInverseEntityRelationId = property (heapD pval) ''post''\<rparr>"

definition connD :: "jsval \<Rightarrow> jsval \<Rightarrow> relation list \<Rightarrow> connection" where
  "connD pval postRow postRels =
     \<lparr>getMetadata = (\<lambda>t.
         if t = ''Details''
         then \<lparr>target = ''Details'', tableName = ''details'', relations = [postD pval],
               extractRelationValuesFromEntity = relationValues,
               getEntityIdMixedMap = property (heapD pval) ''id''\<rparr>
         else if t = ''Post''
         then \<lparr>target = ''Post'', tableName = ''post'', relations = postRels,
               extractRelationValuesFromEntity = relationValues,
               getEntityIdMixedMap = property (heapD pval) ''id''\<rparr>
         else \<lparr>target = ''Image'', tableName = ''image'', relations = [],
               extractRelationValuesFromEntity = relationValues,
               getEntityIdMixedMap = property (heapD pval) ''id''\<rparr>),
      findByIds = (\<lambda>t ids alias.
         if t = ''Details'' \<and> JNum 3 \<in> set ids then Inr [Obj 30] else Inr []),
      getSingleResult = (\<lambda>t alias cond i.
         if t = ''Post'' \<and> cond = ''post.details=:id'' \<and> i = JStr ''X'' then Inr postRow
         else Inr Undefined)\<rparr>"

text \<open>The loader state of Scenario D after Phase 2, and after Phase 3 when the post was
  cleared and its row fetched.\<close>

definition loadedD :: loader where
  "loadedD =
     \<lparr>subjects = [\<lparr>metadata = ''Details'', entity = Obj 3, databaseEntity = Obj 30,
                    markedAsRemoved = False\<rparr>],
      loadMap = [0]\<rparr>"

definition fetchedD :: loader where
  "fetchedD =
     \<lparr>subjects = [\<lparr>metadata = ''Details'', entity = Obj 3, databaseEntity = Obj 30,
                    markedAsRemoved = False\<rparr>,
                  \<lparr>metadata = ''Post'', entity = Undefined, databaseEntity = Obj 40,
                    markedAsRemoved = True\<rparr>],
      loadMap = [0, 0]\<rparr>"

subsection \<open>Scenario M: a post whose metadata was replaced\<close>

text \<open>
  \<^verbatim>\<open>Post.metadata\<close> is many-to-one with remove-cascade only, as in
  \<^verbatim>\<open>sample3-many-to-one/entity/Post.ts\<close>. The persisted \<^verbatim>\<open>Post{id: 1}\<close> (object 1) has the
  metadata object 7; its row (object 10) has no metadata. The repository is a stub that
  answers the one query the owner-side check can make here, the one whose identifier
  parameter is null, with the row 80.
\<close>

definition heapM :: "nat \<Rightarrow> (string \<times> jsval) list" where
  "heapM a =
     (if a = 1 then [(''id'', JNum 1), (''metadata'', Obj 7)]
      else if a = 7 then [(''id'', JNum 7)]
      else if a = 10 then [(''id'', JNum 1), (''metadata'', Null)]
      else if a = 80 then [(''id'', JNum 8)]
      else [])"

definition metadataM :: relation where
  "metadataM =
     \<lparr>isCascadeInsert = False, isCascadeUpdate = False, isCascadeRemove = True,
      isOneToOneOwner = False, isManyToOne = True, isOneToOneNotOwner = False,
      inverseEntityMetadata = ''PostMetadata'', referencedColumnPropertyName = ''id'',
      inverseSideProperty = ''posts'', isEntityDefined = isObject,
      getEntityValue = property heapM ''metadata'',
      getOwnEntityRelationId = property heapM ''metadata'',
      getInverseEntityRelationId = property heapM ''id''\<rparr>"

definition connM :: connection where
  "connM =
     \<lparr>getMetadata = (\<lambda>t.
         if t = ''Post''
         then \<lparr>target = ''Post'', tableName = ''post'', relations = [metadataM],
               extractRelationValuesFromEntity = relationValues,
               getEntityIdMixedMap = property heapM ''id''\<rparr>
         else \<lparr>target = ''PostMetadata'', tableName = ''post_metadata'', relations = [],
               extractRelationValuesFromEntity = relationValues,
               getEntityIdMixedMap = property heapM ''id''\<rparr>),
      findByIds = (\<lambda>t ids alias.
         if t = ''Post'' \<and> JNum 1 \<in> set ids then Inr [Obj 10] else Inr []),
      getSingleResult = (\<lambda>t alias cond i.
         if t = ''PostMetadata'' \<and> cond = ''post_metadata.id=:id'' \<and> i = Null
         then Inr (Obj 80) else Inr Undefined)\<rparr>"

definition loadedM :: loader where
  "loadedM =
     \<lparr>subjects = [\<lparr>metadata = ''Post'', entity = Obj 1, databaseEntity = Obj 10,
                    markedAsRemoved = False\<rparr>],
      loadMap = [0]\<rparr>"

subsection \<open>Repositories that fail\<close>



text \<open>A repository that refuses a lookup whose identifier parameter is undefined, and
  answers every other fetch as \<open>conn\<close> does.\<close>

definition rejectUndefinedId :: "string \<Rightarrow> connection \<Rightarrow> connection" where
  "rejectUndefinedId msg conn =
     conn\<lparr>getSingleResult := (\<lambda>t alias cond i.
        if i = Undefined then Inl msg else getSingleResult conn t alias cond i)\<rparr>"

section \<open>Unfolding the loader on concrete runs\<close>

lemmas scenarioA_defs = connA_def categoryA_def heapA_def property_def isObject_def
  relationValues_def emptyLoader_def loadedA_def

lemmas scenarioU_defs = connU_def categoryU_def heapU_def


lemmas scenarioD_defs = connD_def postD_def imageD_def heapD_def property_def isObject_def
  relationValues_def emptyLoader_def loadedD_def fetchedD_def

lemmas loader_defs = load_def newSubject_def push_def
  populateSubjectCollectionWithDatabaseEntities_def groupByEntityTargets_def
  entityTarget_def populateGroup_def mixedId_def findByEntityLike_def
  setDatabaseEntity_def cascadeRemovedRelation_def persistValueRelationId_def
  relationChecks_def ownerSideCheck_def notOwnerSideCheck_def
  findRelatedDatabaseSubject_def markAsRemoved_def withFlag_def Let_def

lemmas scenarioM_defs = connM_def metadataM_def heapM_def property_def isObject_def
  relationValues_def emptyLoader_def loadedM_def

section \<open>Phase 1: which relations are followed\<close>

















lemma cycle_triples:
  "extractRelationValuesFromEntity (getMetadata connC md) (Obj 11)
     (relations (getMetadata connC md)) = [(partnerC, Obj 12, ''User'')]"
  "extractRelationValuesFromEntity (getMetadata connC md) (Obj 12)
     (relations (getMetadata connC md)) = [(partnerC, Obj 11, ''User'')]"
  by (simp_all add: connC_def userMetadataC_def relationValues_def partnerC_def property_def
      heapC_def)

lemma cycle_gate:
  "isEntityDefined partnerC (Obj a)" "isCascadeInsert partnerC"
  by (simp_all add: partnerC_def isObject_def)

lemma cycle_never_returns:
  "findCascadeUpdateAndInsertEntitiesToLoad n connC (Obj 11) ''User'' st = None \<and>
   findCascadeUpdateAndInsertEntitiesToLoad n connC (Obj 12) ''User'' st = None"
proof (induction n arbitrary: st)
  case 0
  show ?case by simp
next
  case (Suc n)
  show ?case
    by (simp add: cycle_triples cycle_gate Suc)
qed

text \<open>
  C2. The spec: Phase 1 terminates on every entity graph, cycles included, because of the
  deduplication. The code calls \<open>pushIfNotExist\<close> (line 119, with the comment "only if
  there is no same entity there already") and then recurses into the value in any case
  (line 122): the outcome of the deduplication does not guard the recursion. On the cycle
  of Scenario C the walk never returns, whatever depth of recursion it is given; so
  neither does \<open>load\<close>.
\<close>

theorem cyclic_graph_walk_never_returns:
  "load n connC emptyLoader (Obj 11) ''User'' = None"
  by (simp add: load_def cycle_never_returns [THEN conjunct1])

section \<open>Phase 3 on the owning side\<close>

text \<open>
  C1. The spec: on the owning side a Subject is marked for removal if and only if the
  persisted relation identifier is null or differs from the one in the database and the
  related row exists; for \<^verbatim>\<open>Post{id: 1, category: null}\<close> with \<^verbatim>\<open>categoryId = 5\<close> in the
  database, a Subject for \<^verbatim>\<open>Category{id: 5}\<close> is created and marked. The code's own
  comments say the same (lines 173 to 174, 183 to 184, 195 and 199), but the test of
  line 196 returns when the database identifier is present, and the test of line 200
  returns when the persisted identifier is null. Run on Scenario A, \<open>load\<close> returns a
  collection holding the post's Subject alone, unmarked: no Subject for the category is
  created, and no lookup for it is made. The same holds for Phase 3 run by itself on the
  state that Phase 2 leaves.
\<close>

theorem scenario_A_marks_nothing:
  "load (Suc n) connA emptyLoader (Obj 1) ''Post'' = Some (Inr loadedA) \<and>
   findCascadeRemovedEntitiesToLoad (Suc n) connA 0 loadedA = Some (Inr loadedA) \<and>
   subjects loadedA =
     [\<lparr>metadata = ''Post'', entity = Obj 1, databaseEntity = Obj 10, markedAsRemoved = False\<rparr>] \<and>
   loadMap loadedA = [0]"
  by (simp add: scenarioA_defs loader_defs)

text \<open>
  C5. For an owner-side relation (many-to-one or one-to-one owner) with remove-cascade, the
  check marks nothing when the relation identifier read from the Subject's database row
  is present and non-null, and marks nothing when the persisted relation identifier is
  null or equals the database relation identifier: the check returns the loader state as
  it was, whatever the repository would answer and whatever the recursive walk would do.
\<close>

theorem owner_side_marks_nothing:
  assumes "isCascadeRemove rel" and "isOneToOneOwner rel \<or> isManyToOne rel"
    and "(getOwnEntityRelationId rel (databaseEntity (subjects st ! s)) \<noteq> Null \<and>
          getOwnEntityRelationId rel (databaseEntity (subjects st ! s)) \<noteq> Undefined) \<or>
         persistValueRelationId rel (subjects st ! s) = Null \<or>
         persistValueRelationId rel (subjects st ! s) =
           getOwnEntityRelationId rel (databaseEntity (subjects st ! s))"
  shows "cascadeRemovedRelation recur conn s rel st = Some (Inr st)"
  using assms
  by (auto simp: cascadeRemovedRelation_def relationChecks_def ownerSideCheck_def Let_def)

theorem owner_side_marks_nothing_witness:
  "isCascadeRemove categoryA \<and> isManyToOne categoryA \<and>
   getOwnEntityRelationId categoryA (databaseEntity (subjects loadedA ! 0)) = JNum 5 \<and>
   persistValueRelationId categoryA (subjects loadedA ! 0) = Null \<and>
   cascadeRemovedRelation (findCascadeRemovedEntitiesToLoad 1 connA) connA 0 categoryA loadedA =
     Some (Inr loadedA)"
proof -
  have flags: "isCascadeRemove categoryA" "isOneToOneOwner categoryA \<or> isManyToOne categoryA"
    by (simp_all add: categoryA_def)
  have dbId: "getOwnEntityRelationId categoryA (databaseEntity (subjects loadedA ! 0)) = JNum 5"
    by (simp add: categoryA_def loadedA_def property_def heapA_def)
  have persisted: "persistValueRelationId categoryA (subjects loadedA ! 0) = Null"
    by (simp add: persistValueRelationId_def categoryA_def loadedA_def property_def heapA_def)
  from owner_side_marks_nothing [OF flags, of loadedA 0
      "findCascadeRemovedEntitiesToLoad 1 connA" connA] dbId
  have "cascadeRemovedRelation (findCascadeRemovedEntitiesToLoad 1 connA) connA 0 categoryA
          loadedA = Some (Inr loadedA)"
    by simp
  with flags dbId persisted show ?thesis
    by (simp add: categoryA_def)
qed

section \<open>Phase 3: untouched and cleared relation values\<close>

text \<open>
  What lines 155 to 162 and the owner-side guards do with the two values, for every
  descriptor, repository and recursive walk: an undefined relation value leaves the state
  as it is (line 161), and on the owning side so does a null one (line 196 or line 200).
\<close>

lemma undefined_relation_is_skipped:
  assumes "isCascadeRemove rel" and "truthy (entity (subjects st ! s))"
    and "getEntityValue rel (entity (subjects st ! s)) = Undefined"
  shows "cascadeRemovedRelation recur conn s rel st = Some (Inr st)"
  using assms by (simp add: cascadeRemovedRelation_def persistValueRelationId_def)

lemma owner_side_null_is_handled_like_undefined:
  assumes "isCascadeRemove rel" and "isOneToOneOwner rel \<or> isManyToOne rel"
    and "truthy (entity (subjects st ! s))"
    and "getEntityValue rel (entity (subjects st ! s)) = Null"
  shows "cascadeRemovedRelation recur conn s rel st = Some (Inr st)"
  using assms
  by (auto simp: cascadeRemovedRelation_def persistValueRelationId_def relationChecks_def
      ownerSideCheck_def Let_def)

text \<open>
  C6. The spec: an undefined relation property is skipped (untouched), whereas a null one
  is treated as an explicit clearing and is not skipped; the two are distinguished
  exactly. The first half holds (\<open>undefined_relation_is_skipped\<close>). The second does not
  hold on the owning side: the null value passes line 161, and the check then returns at
  line 196 or at line 200 (\<^verbatim>\<open>persistValueRelationId === null\<close>) without a lookup and without
  marking, although the comments on lines 53, 173 and 183 say that a null value means
  removal. This is the defect of C1. On the post of Scenario A, whose category was cleared
  while the stored row still has category 5, \<open>load\<close> ends exactly as on the post of
  Scenario U, whose category was left untouched: one unmarked Subject, the post itself.
\<close>

theorem cleared_category_is_handled_like_untouched:
  "getEntityValue categoryA (Obj 1) = Null \<and>
   getEntityValue categoryU (Obj 1) = Undefined \<and>
   load (Suc n) connA emptyLoader (Obj 1) ''Post'' = Some (Inr loadedA) \<and>
   load (Suc n) connU emptyLoader (Obj 1) ''Post'' = Some (Inr loadedA) \<and>
   map markedAsRemoved (subjects loadedA) = [False]"
  by (simp add: scenarioA_defs scenarioU_defs loader_defs)

section \<open>Phase 3 on the non-owning side\<close>

text \<open>
  C8. For a non-owning one-to-one relation: when the related Subject is not in the
  collection, so that the inverse-side lookup decides, and the lookup returns no row
  (a value that is not truthy), the check returns the state as it is and does not fail:
  nothing is marked and no error is raised.
\<close>

theorem not_owner_no_row_marks_nothing:
  assumes "isOneToOneNotOwner rel" and "\<not> isOneToOneOwner rel" and "\<not> isManyToOne rel"
    and "findRelatedDatabaseSubject rel
           (getOwnEntityRelationId rel (databaseEntity (subjects st ! s))) st = None"
    and "getSingleResult conn (inverseEntityMetadata rel)
           (tableName (getMetadata conn (inverseEntityMetadata rel)))
           (tableName (getMetadata conn (inverseEntityMetadata rel)) @ ''.'' @
              inverseSideProperty rel @ ''=:id'')
           (getOwnEntityRelationId rel (entity (subjects st ! s))) = Inr d"
    and "\<not> truthy d"
  shows "cascadeRemovedRelation recur conn s rel st = Some (Inr st)"
  using assms
  by (simp add: cascadeRemovedRelation_def relationChecks_def notOwnerSideCheck_def Let_def)

theorem not_owner_no_row_marks_nothing_witness:
  "isOneToOneNotOwner (postD Null) \<and> \<not> isOneToOneOwner (postD Null) \<and>
   \<not> isManyToOne (postD Null) \<and>
   findRelatedDatabaseSubject (postD Null) Null loadedD = None \<and>
   getSingleResult (connD Null Undefined []) ''Post'' ''post'' ''post.details=:id'' (JStr ''X'') =
     Inr Undefined \<and>
   cascadeRemovedRelation (findCascadeRemovedEntitiesToLoad 1 (connD Null Undefined []))
     (connD Null Undefined []) 0 (postD Null) loadedD = Some (Inr loadedD)"
proof -
  have flags: "isOneToOneNotOwner (postD Null)" "\<not> isOneToOneOwner (postD Null)"
    "\<not> isManyToOne (postD Null)"
    by (simp_all add: postD_def)
  have absent: "findRelatedDatabaseSubject (postD Null)
      (getOwnEntityRelationId (postD Null) (databaseEntity (subjects loadedD ! 0))) loadedD = None"
    by (simp add: scenarioD_defs findRelatedDatabaseSubject_def entityTarget_def)
  have noRow: "getSingleResult (connD Null Undefined []) (inverseEntityMetadata (postD Null))
      (tableName (getMetadata (connD Null Undefined []) (inverseEntityMetadata (postD Null))))
      (tableName (getMetadata (connD Null Undefined []) (inverseEntityMetadata (postD Null))) @
         ''.'' @ inverseSideProperty (postD Null) @ ''=:id'')
      (getOwnEntityRelationId (postD Null) (entity (subjects loadedD ! 0))) = Inr Undefined"
    by (simp add: scenarioD_defs)
  have falsy: "\<not> truthy Undefined" by simp
  have "cascadeRemovedRelation (findCascadeRemovedEntitiesToLoad 1 (connD Null Undefined []))
     (connD Null Undefined []) 0 (postD Null) loadedD = Some (Inr loadedD)"
    by (rule not_owner_no_row_marks_nothing [OF flags absent noRow falsy])
  moreover have "findRelatedDatabaseSubject (postD Null) Null loadedD = None"
    using absent by (simp add: scenarioD_defs)
  moreover have "getSingleResult (connD Null Undefined []) ''Post'' ''post''
      ''post.details=:id'' (JStr ''X'') = Inr Undefined"
    using noRow by (simp add: scenarioD_defs)
  ultimately show ?thesis using flags by simp
qed

section \<open>Phase 3: what is appended after a fetch\<close>

text \<open>
  C4. In both blocks, when the related Subject is not in the collection and the lookup
  returns a row \<open>d\<close>, a new Subject is made for \<open>d\<close> at a fresh address, and what is
  appended to the collection is \<open>s\<close>, the Subject under examination: the collection
  becomes \<open>loadMap st @ [s]\<close> and does not hold the address of the new Subject. On the
  owning side the new Subject is then marked and walked; on the non-owning side it is
  marked and walked unless the persisted identifier equals the row's (\<open>m\<close> tells which).
\<close>

theorem fetched_subject_is_not_the_one_pushed:
  assumes "s < length (subjects st)"
    and "\<forall>a \<in> set (loadMap st). a < length (subjects st)"
    and "findRelatedDatabaseSubject rel
           (getOwnEntityRelationId rel (databaseEntity (subjects st ! s))) st = None"
    and "getOwnEntityRelationId rel (databaseEntity (subjects st ! s)) = Null \<or>
         getOwnEntityRelationId rel (databaseEntity (subjects st ! s)) = Undefined"
    and "truthy d"
  shows
    "(persistId \<noteq> Null \<and>
      persistId \<noteq> getOwnEntityRelationId rel (databaseEntity (subjects st ! s)) \<and>
      getSingleResult conn (inverseEntityMetadata rel)
        (tableName (getMetadata conn (inverseEntityMetadata rel)))
        (tableName (getMetadata conn (inverseEntityMetadata rel)) @ ''.'' @
           referencedColumnPropertyName rel @ ''=:id'')
        (getOwnEntityRelationId rel (databaseEntity (subjects st ! s))) = Inr d \<longrightarrow>
      (\<exists>st'. loadMap st' = loadMap st @ [s] \<and>
             length (subjects st) \<notin> set (loadMap st') \<and>
             subjects st' = subjects st @
               [\<lparr>metadata = inverseEntityMetadata rel, entity = Undefined,
                 databaseEntity = d, markedAsRemoved = True\<rparr>] \<and>
             ownerSideCheck recur conn s rel persistId st =
               withFlag False (recur (length (subjects st)) st'))) \<and>
     (getSingleResult conn (inverseEntityMetadata rel)
        (tableName (getMetadata conn (inverseEntityMetadata rel)))
        (tableName (getMetadata conn (inverseEntityMetadata rel)) @ ''.'' @
           inverseSideProperty rel @ ''=:id'')
        (getOwnEntityRelationId rel (entity (subjects st ! s))) = Inr d \<longrightarrow>
      (\<exists>st' m. loadMap st' = loadMap st @ [s] \<and>
             length (subjects st) \<notin> set (loadMap st') \<and>
             subjects st' = subjects st @
               [\<lparr>metadata = inverseEntityMetadata rel, entity = Undefined,
                 databaseEntity = d, markedAsRemoved = m\<rparr>] \<and>
             notOwnerSideCheck recur conn s rel persistId st =
               (if m then recur (length (subjects st)) st' else Some (Inr st'))))"
proof (intro conjI impI)
  let ?new = "push s (newSubject (inverseEntityMetadata rel) Undefined d st)"
  have fresh: "length (subjects st) \<notin> set (loadMap st @ [s])"
    using assms(1,2) by auto
  have lm: "loadMap (markAsRemoved (length (subjects st)) ?new) = loadMap st @ [s]"
    "loadMap ?new = loadMap st @ [s]"
    by (simp_all add: markAsRemoved_def push_def newSubject_def)
  have subjMarked: "subjects (markAsRemoved (length (subjects st)) ?new) =
      subjects st @ [\<lparr>metadata = inverseEntityMetadata rel, entity = Undefined,
                      databaseEntity = d, markedAsRemoved = True\<rparr>]"
    by (simp add: markAsRemoved_def push_def newSubject_def)
  have subjNew: "subjects ?new =
      subjects st @ [\<lparr>metadata = inverseEntityMetadata rel, entity = Undefined,
                      databaseEntity = d, markedAsRemoved = False\<rparr>]"
    by (simp add: push_def newSubject_def)
  {
    assume a: "persistId \<noteq> Null \<and>
      persistId \<noteq> getOwnEntityRelationId rel (databaseEntity (subjects st ! s)) \<and>
      getSingleResult conn (inverseEntityMetadata rel)
        (tableName (getMetadata conn (inverseEntityMetadata rel)))
        (tableName (getMetadata conn (inverseEntityMetadata rel)) @ ''.'' @
           referencedColumnPropertyName rel @ ''=:id'')
        (getOwnEntityRelationId rel (databaseEntity (subjects st ! s))) = Inr d"
    have "ownerSideCheck recur conn s rel persistId st =
            withFlag False (recur (length (subjects st))
              (markAsRemoved (length (subjects st)) ?new))"
      using a assms(3,4,5) by (auto simp: ownerSideCheck_def Let_def)
    with fresh lm subjMarked
    show "\<exists>st'. loadMap st' = loadMap st @ [s] \<and>
             length (subjects st) \<notin> set (loadMap st') \<and>
             subjects st' = subjects st @
               [\<lparr>metadata = inverseEntityMetadata rel, entity = Undefined,
                 databaseEntity = d, markedAsRemoved = True\<rparr>] \<and>
             ownerSideCheck recur conn s rel persistId st =
               withFlag False (recur (length (subjects st)) st')"
      by metis
  }
  {
    assume a: "getSingleResult conn (inverseEntityMetadata rel)
        (tableName (getMetadata conn (inverseEntityMetadata rel)))
        (tableName (getMetadata conn (inverseEntityMetadata rel)) @ ''.'' @
           inverseSideProperty rel @ ''=:id'')
        (getOwnEntityRelationId rel (entity (subjects st ! s))) = Inr d"
    let ?same = "truthy persistId \<and> persistId = getInverseEntityRelationId rel d"
    have r: "notOwnerSideCheck recur conn s rel persistId st =
            (if ?same then Some (Inr ?new)
             else recur (length (subjects st)) (markAsRemoved (length (subjects st)) ?new))"
      using a assms(3,4,5) by (auto simp: notOwnerSideCheck_def Let_def)
    show "\<exists>st' m. loadMap st' = loadMap st @ [s] \<and>
             length (subjects st) \<notin> set (loadMap st') \<and>
             subjects st' = subjects st @
               [\<lparr>metadata = inverseEntityMetadata rel, entity = Undefined,
                 databaseEntity = d, markedAsRemoved = m\<rparr>] \<and>
             notOwnerSideCheck recur conn s rel persistId st =
               (if m then recur (length (subjects st)) st' else Some (Inr st'))"
    proof (cases ?same)
      case True
      have "notOwnerSideCheck recur conn s rel persistId st = Some (Inr ?new)"
        using r by (simp only: if_P [OF True])
      with fresh lm subjNew show ?thesis
        by (intro exI [of _ ?new] exI [of _ False]) simp
    next
      case False
      have "notOwnerSideCheck recur conn s rel persistId st =
              recur (length (subjects st)) (markAsRemoved (length (subjects st)) ?new)"
        using r by (simp only: if_not_P [OF False])
      with fresh lm subjMarked show ?thesis
        by (intro exI [of _ "markAsRemoved (length (subjects st)) ?new"] exI [of _ True]) simp
    qed
  }
qed

theorem fetched_subject_is_not_the_one_pushed_witness:
  "findRelatedDatabaseSubject metadataM Null loadedM = None \<and>
   findRelatedDatabaseSubject (postD Null) Null loadedD = None \<and>
   ownerSideCheck (findCascadeRemovedEntitiesToLoad 1 connM) connM 0 metadataM (JNum 7) loadedM =
     Some (Inr (False,
       \<lparr>subjects =
          [\<lparr>metadata = ''Post'', entity = Obj 1, databaseEntity = Obj 10,
            markedAsRemoved = False\<rparr>,
           \<lparr>metadata = ''PostMetadata'', entity = Undefined, databaseEntity = Obj 80,
            markedAsRemoved = True\<rparr>],
        loadMap = [0, 0]\<rparr>)) \<and>
   (\<exists>m. notOwnerSideCheck (findCascadeRemovedEntitiesToLoad 1 (connD Null (Obj 40) []))
       (connD Null (Obj 40) []) 0 (postD Null) Null loadedD =
     Some (Inr
       \<lparr>subjects =
          [\<lparr>metadata = ''Details'', entity = Obj 3, databaseEntity = Obj 30,
            markedAsRemoved = False\<rparr>,
           \<lparr>metadata = ''Post'', entity = Undefined, databaseEntity = Obj 40,
            markedAsRemoved = m\<rparr>],
        loadMap = [0, 0]\<rparr>))"
proof -
  let ?recM = "findCascadeRemovedEntitiesToLoad 1 connM"
  let ?connD = "connD Null (Obj 40) []"
  let ?recD = "findCascadeRemovedEntitiesToLoad 1 ?connD"
  have validM: "0 < length (subjects loadedM)"
    "\<forall>a \<in> set (loadMap loadedM). a < length (subjects loadedM)"
    by (simp_all add: loadedM_def)
  have absentM: "findRelatedDatabaseSubject metadataM
      (getOwnEntityRelationId metadataM (databaseEntity (subjects loadedM ! 0))) loadedM = None"
    by (simp add: scenarioM_defs findRelatedDatabaseSubject_def entityTarget_def)
  have noIdM: "getOwnEntityRelationId metadataM (databaseEntity (subjects loadedM ! 0)) = Null \<or>
      getOwnEntityRelationId metadataM (databaseEntity (subjects loadedM ! 0)) = Undefined"
    by (simp add: scenarioM_defs)
  have row: "truthy (Obj 80)" "truthy (Obj 40)" by simp_all
  have askM: "JNum 7 \<noteq> Null \<and>
      JNum 7 \<noteq> getOwnEntityRelationId metadataM (databaseEntity (subjects loadedM ! 0)) \<and>
      getSingleResult connM (inverseEntityMetadata metadataM)
        (tableName (getMetadata connM (inverseEntityMetadata metadataM)))
        (tableName (getMetadata connM (inverseEntityMetadata metadataM)) @ ''.'' @
           referencedColumnPropertyName metadataM @ ''=:id'')
        (getOwnEntityRelationId metadataM (databaseEntity (subjects loadedM ! 0))) = Inr (Obj 80)"
    by (simp add: scenarioM_defs)
  from fetched_subject_is_not_the_one_pushed [OF validM absentM noIdM row(1),
      THEN conjunct1, rule_format, OF askM, of ?recM]
  obtain stM where stM: "loadMap stM = loadMap loadedM @ [0]"
    "subjects stM = subjects loadedM @
       [\<lparr>metadata = inverseEntityMetadata metadataM, entity = Undefined,
         databaseEntity = Obj 80, markedAsRemoved = True\<rparr>]"
    "ownerSideCheck ?recM connM 0 metadataM (JNum 7) loadedM =
       withFlag False (?recM (length (subjects loadedM)) stM)"
    by blast
  have "stM = \<lparr>subjects =
          [\<lparr>metadata = ''Post'', entity = Obj 1, databaseEntity = Obj 10,
            markedAsRemoved = False\<rparr>,
           \<lparr>metadata = ''PostMetadata'', entity = Undefined, databaseEntity = Obj 80,
            markedAsRemoved = True\<rparr>],
        loadMap = [0, 0]\<rparr>"
    using stM(1,2) by (cases stM) (simp add: loadedM_def metadataM_def)
  with stM(3) have owner: "ownerSideCheck ?recM connM 0 metadataM (JNum 7) loadedM =
     Some (Inr (False,
       \<lparr>subjects =
          [\<lparr>metadata = ''Post'', entity = Obj 1, databaseEntity = Obj 10,
            markedAsRemoved = False\<rparr>,
           \<lparr>metadata = ''PostMetadata'', entity = Undefined, databaseEntity = Obj 80,
            markedAsRemoved = True\<rparr>],
        loadMap = [0, 0]\<rparr>))"
    by (simp add: withFlag_def loadedM_def connM_def)
  have validD: "0 < length (subjects loadedD)"
    "\<forall>a \<in> set (loadMap loadedD). a < length (subjects loadedD)"
    by (simp_all add: loadedD_def)
  have absentD: "findRelatedDatabaseSubject (postD Null)
      (getOwnEntityRelationId (postD Null) (databaseEntity (subjects loadedD ! 0))) loadedD = None"
    by (simp add: scenarioD_defs findRelatedDatabaseSubject_def entityTarget_def)
  have noIdD: "getOwnEntityRelationId (postD Null) (databaseEntity (subjects loadedD ! 0)) = Null \<or>
      getOwnEntityRelationId (postD Null) (databaseEntity (subjects loadedD ! 0)) = Undefined"
    by (simp add: scenarioD_defs)
  have askD: "getSingleResult ?connD (inverseEntityMetadata (postD Null))
        (tableName (getMetadata ?connD (inverseEntityMetadata (postD Null))))
        (tableName (getMetadata ?connD (inverseEntityMetadata (postD Null))) @ ''.'' @
           inverseSideProperty (postD Null) @ ''=:id'')
        (getOwnEntityRelationId (postD Null) (entity (subjects loadedD ! 0))) = Inr (Obj 40)"
    by (simp add: scenarioD_defs)
  from fetched_subject_is_not_the_one_pushed [OF validD absentD noIdD row(2),
      THEN conjunct2, rule_format, OF askD, of ?recD Null]
  obtain stD m where stD: "loadMap stD = loadMap loadedD @ [0]"
    "subjects stD = subjects loadedD @
       [\<lparr>metadata = inverseEntityMetadata (postD Null), entity = Undefined,
         databaseEntity = Obj 40, markedAsRemoved = m\<rparr>]"
    "notOwnerSideCheck ?recD ?connD 0 (postD Null) Null loadedD =
       (if m then ?recD (length (subjects loadedD)) stD else Some (Inr stD))"
    by blast
  have eqD: "stD = \<lparr>subjects =
          [\<lparr>metadata = ''Details'', entity = Obj 3, databaseEntity = Obj 30,
            markedAsRemoved = False\<rparr>,
           \<lparr>metadata = ''Post'', entity = Undefined, databaseEntity = Obj 40,
            markedAsRemoved = m\<rparr>],
        loadMap = [0, 0]\<rparr>"
    using stD(1,2) by (cases stD) (simp add: loadedD_def postD_def)
  have "?recD (length (subjects loadedD)) stD = Some (Inr stD)"
    by (simp add: eqD loadedD_def connD_def)
  with stD(3) have "notOwnerSideCheck ?recD ?connD 0 (postD Null) Null loadedD = Some (Inr stD)"
    by simp
  with eqD have notOwner: "\<exists>m. notOwnerSideCheck ?recD ?connD 0 (postD Null) Null loadedD =
     Some (Inr
       \<lparr>subjects =
          [\<lparr>metadata = ''Details'', entity = Obj 3, databaseEntity = Obj 30,
            markedAsRemoved = False\<rparr>,
           \<lparr>metadata = ''Post'', entity = Undefined, databaseEntity = Obj 40,
            markedAsRemoved = m\<rparr>],
        loadMap = [0, 0]\<rparr>)"
    by blast
  have "findRelatedDatabaseSubject metadataM Null loadedM = None"
    using absentM by (simp add: scenarioM_defs)
  moreover have "findRelatedDatabaseSubject (postD Null) Null loadedD = None"
    using absentD by (simp add: scenarioD_defs)
  ultimately show ?thesis
    using owner notOwner by blast
qed

text \<open>
  C3. The spec: after \<open>load\<close>, each (type, identifier) pair is exactly one Subject of the
  collection, also for Subjects added in Phase 3. On Scenario D with \<^verbatim>\<open>post\<close> cleared:
  the stored row of the details has no code, so line 263 does not return; no Subject of a
  post is in the collection; the lookup of lines 283 to 289 asks for the post whose
  \<^verbatim>\<open>details\<close> is the persisted code \<^verbatim>\<open>'X'\<close> and gets the row of \<^verbatim>\<open>Post{id: 4}\<close>. Line 295
  makes a Subject for it and line 296 pushes \<^verbatim>\<open>subject\<close>, the Subject of the details
  (the comment on lines 291 to 293 speaks of adding the fetched one). The final
  collection is \<open>[0, 0]\<close>: the Subject of \<^verbatim>\<open>Details{id: 3}\<close> is in it twice, and the Subject
  made for \<^verbatim>\<open>Post{id: 4}\<close> (address 1, marked for removal) is not in it at all.
\<close>

theorem removal_fetch_duplicates_subject:
  "load (Suc (Suc n)) (connD Null (Obj 40) []) emptyLoader (Obj 3) ''Details'' =
     Some (Inr \<lparr>subjects =
                  [\<lparr>metadata = ''Details'', entity = Obj 3, databaseEntity = Obj 30,
                    markedAsRemoved = False\<rparr>,
                   \<lparr>metadata = ''Post'', entity = Undefined, databaseEntity = Obj 40,
                    markedAsRemoved = True\<rparr>],
                loadMap = [0, 0]\<rparr>)"
  by (simp add: scenarioD_defs loader_defs)

text \<open>
  C10. The claim: the walk reads a Subject's persisted value only when it is present. In
  Scenario D the Subject made for the post (address 1 of \<open>fetchedD\<close>) has a database row
  only, and the walk recurses into it (line 312). For its relation \<^verbatim>\<open>image\<close> the stored
  post has no slug, so line 263 does not return, no Subject of an image is in the
  collection, and lines 283 to 289 build the lookup. Line 287 computes its parameter as
  \<^verbatim>\<open>relation.getOwnEntityRelationId(subject.entity)\<close> with \<^verbatim>\<open>subject.entity\<close> undefined,
  where the owner-side block passes \<^verbatim>\<open>subject.databaseEntity\<close> (line 224) and lines 157 to
  158 guard their read. A descriptor that reads a property is thus handed undefined (in
  the host language that read throws; here it answers \<open>Undefined\<close>), and the lookup is
  made with an undefined identifier: with a repository that refuses such a lookup, and
  differs in nothing else, \<open>load\<close> is rejected, and so is the walk of the post's Subject
  by itself.
\<close>

theorem absent_persisted_value_is_read:
  "load (Suc (Suc n)) (connD Null (Obj 40) [imageD Null]) emptyLoader (Obj 3) ''Details'' =
     Some (Inr fetchedD) \<and>
   entity (subjects fetchedD ! 1) = Undefined \<and>
   databaseEntity (subjects fetchedD ! 1) = Obj 40 \<and>
   load (Suc (Suc n)) (rejectUndefinedId ''undefined id'' (connD Null (Obj 40) [imageD Null]))
       emptyLoader (Obj 3) ''Details'' =
     Some (Inl (FetchError ''undefined id'')) \<and>
   findCascadeRemovedEntitiesToLoad (Suc n)
       (rejectUndefinedId ''undefined id'' (connD Null (Obj 40) [imageD Null])) 1 fetchedD =
     Some (Inl (FetchError ''undefined id''))"
  by (simp add: rejectUndefinedId_def scenarioD_defs loader_defs)

section \<open>Failures of the repository\<close>















text \<open>
  The same, site by site: the first batched fetch that fails is the result of \<open>load\<close>, and
  a relation check that reaches its lookup and has it rejected is rejected with that
  failure, whatever the recursive walk would do.
\<close>

lemma forEachE_first_failure:
  assumes "forEachE f xs st = Inr st'" and "f x st' = Inl err"
  shows "forEachE f (xs @ x # ys) st = Inl err"
  using assms by (induction xs arbitrary: st) (auto split: sum.splits)

lemma batched_fetch_failure_rejects_load:
  assumes "findCascadeUpdateAndInsertEntitiesToLoad fuel conn e md
             (push (length (subjects this)) (newSubject md e Undefined this)) = Some st1"
    and "groupByEntityTargets st1 = gs @ g # gs'"
    and "forEachE (populateGroup conn st1) gs st1 = Inr st2"
    and "findByIds conn (fst g) (map (\<lambda>a. mixedId conn (subjects st1 ! a)) (snd g))
           (tableName (getMetadata conn (fst g))) = Inl msg"
  shows "load fuel conn this e md = Some (Inl (FetchError msg))"
proof -
  have "populateGroup conn st1 g st2 = Inl (FetchError msg)"
    using assms(4) by (simp add: populateGroup_def Let_def)
  with assms(2,3) have "populateSubjectCollectionWithDatabaseEntities conn st1 =
      Inl (FetchError msg)"
    by (simp add: populateSubjectCollectionWithDatabaseEntities_def forEachE_first_failure)
  with assms(1) show ?thesis by (simp add: load_def)
qed

lemma lookup_failure_rejects_check:
  assumes "isCascadeRemove rel" and "truthy (databaseEntity (subjects st ! s))"
    and "\<not> (truthy (entity (subjects st ! s)) \<and>
            persistValueRelationId rel (subjects st ! s) = Undefined)"
    and "getOwnEntityRelationId rel (databaseEntity (subjects st ! s)) = Null \<or>
         getOwnEntityRelationId rel (databaseEntity (subjects st ! s)) = Undefined"
    and "findRelatedDatabaseSubject rel
           (getOwnEntityRelationId rel (databaseEntity (subjects st ! s))) st = None"
  shows "(isOneToOneOwner rel \<or> isManyToOne rel) \<and>
         persistValueRelationId rel (subjects st ! s) \<noteq> Null \<and>
         persistValueRelationId rel (subjects st ! s) \<noteq>
           getOwnEntityRelationId rel (databaseEntity (subjects st ! s)) \<and>
         getSingleResult conn (inverseEntityMetadata rel)
           (tableName (getMetadata conn (inverseEntityMetadata rel)))
           (tableName (getMetadata conn (inverseEntityMetadata rel)) @ ''.'' @
              referencedColumnPropertyName rel @ ''=:id'')
           (getOwnEntityRelationId rel (databaseEntity (subjects st ! s))) = Inl msg \<longrightarrow>
         cascadeRemovedRelation recur conn s rel st = Some (Inl (FetchError msg))"
    and "\<not> isOneToOneOwner rel \<and> \<not> isManyToOne rel \<and> isOneToOneNotOwner rel \<and>
         getSingleResult conn (inverseEntityMetadata rel)
           (tableName (getMetadata conn (inverseEntityMetadata rel)))
           (tableName (getMetadata conn (inverseEntityMetadata rel)) @ ''.'' @
              inverseSideProperty rel @ ''=:id'')
           (getOwnEntityRelationId rel (entity (subjects st ! s))) = Inl msg \<longrightarrow>
         cascadeRemovedRelation recur conn s rel st = Some (Inl (FetchError msg))"
  using assms
  by (auto simp: cascadeRemovedRelation_def relationChecks_def ownerSideCheck_def
      notOwnerSideCheck_def Let_def)

end
